theory Spec2Isabelle
  imports Main "HOL-Library.Sublist" "HOL-Library.AList"
begin

section \<open>Python values, dictionaries and asynchronous generators\<close>

text \<open>
  The values that travel in a request dictionary (\<open>Dict[str, Any]\<close>). A dictionary is an
  association list in insertion order with distinct keys, as a Python \<open>dict\<close> is.
\<close>

datatype pyval =
    PNone
  | PBool bool
  | PInt int
  | PStr string
  | PList "pyval list"
  | PDict "(string \<times> pyval) list"

type_synonym pydict = "(string \<times> pyval) list"

text \<open>Truth value testing, as \<open>if x:\<close> and \<open>not x\<close> do it.\<close>

fun truthy :: "pyval \<Rightarrow> bool" where
  "truthy PNone = False"
| "truthy (PBool b) = b"
| "truthy (PInt n) = (n \<noteq> 0)"
| "truthy (PStr s) = (s \<noteq> [])"
| "truthy (PList xs) = (xs \<noteq> [])"
| "truthy (PDict d) = (d \<noteq> [])"

text \<open>
  \<open>d.update(e)\<close>: the items of \<open>e\<close> are stored from left to right; a key that is already
  there keeps its place and takes the new value, a new key is appended.
\<close>

definition dict_update :: "pydict \<Rightarrow> pydict \<Rightarrow> pydict" where
  "dict_update d e = fold (\<lambda>(k, v). AList.update k v) e d"

text \<open>The exceptions that can cross the streamers.\<close>

datatype exn = CancelledError | KeyError string | OtherError string

text \<open>
  An asynchronous generator, seen from its consumer: every \<open>__anext__\<close> either hands over
  an item and the rest of the generator, ends the iteration, or raises. An exception that
  arrives at the \<open>await asyncio.sleep(0)\<close> closing a loop round is the \<open>Raise\<close> of the
  rest: no statement runs between that await and the next \<open>__anext__\<close>, and both are
  inside the same \<open>try\<close>.
\<close>

datatype 'a agen =
    StopAsyncIteration
  | Raise exn
  | Yield 'a "'a agen"

fun yielded :: "'a agen \<Rightarrow> 'a list" where
  "yielded StopAsyncIteration = []"
| "yielded (Raise e) = []"
| "yielded (Yield x rest) = x # yielded rest"

fun raised :: "'a agen \<Rightarrow> exn option" where
  "raised StopAsyncIteration = None"
| "raised (Raise e) = Some e"
| "raised (Yield x rest) = raised rest"

fun non_none :: "'a option list \<Rightarrow> 'a list" where
  "non_none [] = []"
| "non_none (None # xs) = non_none xs"
| "non_none (Some x # xs) = x # non_none xs"

section \<open>The inference backend\<close>

text \<open>
  Modelled from the spec: the class \<open>Inference\<close> of \<open>refact_self_hosting/inference.py\<close>,
  which is used through the attributes \<open>model_name\<close>, \<open>last_error\<close>, \<open>model_dict\<close>,
  \<open>chat_is_available\<close> and the asynchronous generator \<open>infer(request, stream)\<close>. The type
  \<open>'r\<close> is the type of a snapshot; \<open>None\<close> is the absent snapshot.
\<close>

record 'r inference =
  model_name :: "string option"
  last_error :: "string option"
  model_dict :: pydict
  chat_is_available :: bool
  infer :: "pydict \<Rightarrow> pyval \<Rightarrow> 'r option agen"

section \<open>The plain streamer\<close>

definition nl :: string where
  "nl = [CHR 0x0A]"

definition done_marker :: string where
  "done_marker = ''data: [DONE]'' @ nl @ nl"

text \<open>
  The loop of \<open>inference_streamer\<close> with what follows it and the \<open>except\<close> clause;
  \<open>dumps\<close> is \<open>json.dumps\<close>, \<open>flag\<close> the truth value of the local \<open>stream\<close>.
\<close>

fun inference_loop :: "('r \<Rightarrow> string) \<Rightarrow> bool \<Rightarrow> string \<Rightarrow> 'r option agen \<Rightarrow> string agen" where
  "inference_loop dumps flag data_str StopAsyncIteration =
     (if flag then Yield (''data: [DONE]'' @ nl @ nl) StopAsyncIteration
      else Yield data_str StopAsyncIteration)"
| "inference_loop dumps flag data_str (Raise e) =
     (if e = CancelledError then StopAsyncIteration else Raise e)"
| "inference_loop dumps flag data_str (Yield None rest) =
     inference_loop dumps flag data_str rest"
| "inference_loop dumps flag data_str (Yield (Some response) rest) =
     (let data_str = dumps response in
      if flag then
        let data_str = ''data: '' @ data_str @ nl @ nl in
        Yield data_str (inference_loop dumps flag data_str rest)
      else inference_loop dumps flag data_str rest)"

definition inference_streamer :: "('r \<Rightarrow> string) \<Rightarrow> pydict \<Rightarrow> 'r inference \<Rightarrow> string agen" where
  "inference_streamer dumps request inference =
     (case map_of request ''stream'' of
        None \<Rightarrow> Raise (KeyError ''stream'')
      | Some stream_val \<Rightarrow>
          inference_loop dumps (truthy stream_val) [] (infer inference request stream_val))"

text \<open>A framed chunk: what a streaming round yields for the snapshot \<open>response\<close>.\<close>

definition frame :: "('r \<Rightarrow> string) \<Rightarrow> 'r \<Rightarrow> string" where
  "frame dumps response = ''data: '' @ dumps response @ nl @ nl"

section \<open>The chat delta streamer\<close>

text \<open>
  Modelled from the spec: the shape of a snapshot that \<open>Inference.infer\<close> yields, a
  mapping that may have the key \<open>choices\<close>, a sequence of mappings that have at least an
  integer \<open>index\<close> and may have the cumulative \<open>content\<close>. \<open>None\<close> in \<open>content\<close>,
  \<open>delta\<close> and \<open>choices\<close> is the absent key; \<open>choice_other\<close> and \<open>snapshot_other\<close> hold
  the keys that the streamer neither reads nor writes. One \<open>char\<close> stands for one code
  point of a Python \<open>str\<close>. A snapshot is the dictionary as the streamer finds it when
  \<open>__anext__\<close> returns it.
\<close>

record choice =
  index :: int
  content :: "string option"
  delta :: "string option"
  choice_other :: pydict

record snapshot =
  choices :: "choice list option"
  snapshot_other :: pydict

text \<open>The \<open>for ch in response["choices"]\<close> loop; \<open>seen\<close> is the dictionary \<open>Dict[int, str]\<close>.\<close>

fun chat_choices :: "(int \<rightharpoonup> string) \<Rightarrow> choice list \<Rightarrow> (int \<rightharpoonup> string) \<times> choice list" where
  "chat_choices seen [] = (seen, [])"
| "chat_choices seen (ch # chs) =
     (let idx = index ch;
          seen_here = (case seen idx of None \<Rightarrow> [] | Some s \<Rightarrow> s);
          cumulative = (case content ch of None \<Rightarrow> [] | Some c \<Rightarrow> c);
          ch' = ch\<lparr>delta := Some (drop (length seen_here) cumulative), content := None\<rparr>
      in case chat_choices (seen(idx \<mapsto> cumulative)) chs of
           (seen', chs') \<Rightarrow> (seen', ch' # chs'))"

text \<open>The body of the \<open>async for\<close> up to \<open>json.dumps\<close>: the new \<open>seen\<close> and the rewritten snapshot.\<close>

definition chat_response :: "(int \<rightharpoonup> string) \<Rightarrow> snapshot \<Rightarrow> (int \<rightharpoonup> string) \<times> snapshot" where
  "chat_response seen response =
     (case choices response of
        None \<Rightarrow> (seen, response)
      | Some chs \<Rightarrow>
          (case chat_choices seen chs of
             (seen', chs') \<Rightarrow> (seen', response\<lparr>choices := Some chs'\<rparr>)))"

fun chat_delta_loop :: "(snapshot \<Rightarrow> string) \<Rightarrow> (int \<rightharpoonup> string) \<Rightarrow> snapshot option agen \<Rightarrow> string agen" where
  "chat_delta_loop dumps seen StopAsyncIteration = Yield (''data: [DONE]'' @ nl @ nl) StopAsyncIteration"
| "chat_delta_loop dumps seen (Raise e) =
     (if e = CancelledError then StopAsyncIteration else Raise e)"
| "chat_delta_loop dumps seen (Yield None rest) = chat_delta_loop dumps seen rest"
| "chat_delta_loop dumps seen (Yield (Some response) rest) =
     (case chat_response seen response of
        (seen', response') \<Rightarrow>
          (let tmp = dumps response' in
           Yield (''data: '' @ tmp @ nl @ nl) (chat_delta_loop dumps seen' rest)))"

definition chat_delta_streamer :: "(snapshot \<Rightarrow> string) \<Rightarrow> pydict \<Rightarrow> snapshot inference \<Rightarrow> string agen" where
  "chat_delta_streamer dumps request inference =
     chat_delta_loop dumps Map.empty (infer inference request (PBool True))"

text \<open>
  The snapshots that \<open>chat_delta_streamer\<close> hands to \<open>json.dumps\<close>, in emission order:
  the same recursion as \<open>chat_delta_loop\<close>, before serialisation and framing.
\<close>

fun chat_delta_payloads :: "(int \<rightharpoonup> string) \<Rightarrow> snapshot option agen \<Rightarrow> snapshot list" where
  "chat_delta_payloads seen StopAsyncIteration = []"
| "chat_delta_payloads seen (Raise e) = []"
| "chat_delta_payloads seen (Yield None rest) = chat_delta_payloads seen rest"
| "chat_delta_payloads seen (Yield (Some response) rest) =
     (case chat_response seen response of
        (seen', response') \<Rightarrow> response' # chat_delta_payloads seen' rest)"

text \<open>What a reader of the snapshots sees for one choice index.\<close>

definition choices_of :: "snapshot \<Rightarrow> choice list" where
  "choices_of response = (case choices response of None \<Rightarrow> [] | Some chs \<Rightarrow> chs)"

definition content_of :: "choice \<Rightarrow> string" where
  "content_of ch = (case content ch of None \<Rightarrow> [] | Some c \<Rightarrow> c)"

definition delta_of :: "choice \<Rightarrow> string" where
  "delta_of ch = (case delta ch of None \<Rightarrow> [] | Some d \<Rightarrow> d)"

definition choices_for :: "int \<Rightarrow> snapshot list \<Rightarrow> choice list" where
  "choices_for idx responses = filter (\<lambda>ch. index ch = idx) (concat (map choices_of responses))"

definition contents_for :: "int \<Rightarrow> snapshot list \<Rightarrow> string list" where
  "contents_for idx responses = map content_of (choices_for idx responses)"

definition deltas_for :: "int \<Rightarrow> snapshot list \<Rightarrow> string list" where
  "deltas_for idx responses = map delta_of (choices_for idx responses)"

definition final_content :: "int \<Rightarrow> snapshot list \<Rightarrow> string" where
  "final_content idx responses = last ([] # contents_for idx responses)"

text \<open>
  The cumulative contents \<open>cs\<close> of one index are monotonically non-decreasing prefixes of
  the text \<open>final\<close>: each is a prefix of it, and their lengths never decrease.
\<close>

definition monotone_prefixes_of :: "string \<Rightarrow> string list \<Rightarrow> bool" where
  "monotone_prefixes_of final cs = (list_all (\<lambda>c. prefix c final) cs \<and> sorted (map length cs))"

section \<open>The endpoints\<close>

text \<open>
  Modelled from the spec: the parameter classes of \<open>refact_self_hosting/params.py\<close>, by
  the attributes that the routers read. \<open>func\<close> is the attribute \<open>function\<close>; \<open>sources\<close>
  is a \<open>dict\<close> from file names to texts, \<open>messages\<close> a list of (role, content). The
  method \<open>clamp\<close> is a parameter of the endpoints; so is the string \<open>uuid\<close> that \<open>str(uuid4())\<close> returns.
\<close>

record sampling_params =
  model :: string
  stop :: "string list"
  stream :: bool
  max_tokens :: int
  echo :: bool

record text_sampling_params = sampling_params +
  prompt :: string

record diff_sampling_params = sampling_params +
  intent :: string
  sources :: "(string \<times> string) list"
  cursor_file :: string
  cursor0 :: int
  cursor1 :: int
  func :: string
  max_edits :: int

record chat_sampling_params = sampling_params +
  messages :: "(string \<times> string) list"

text \<open>
  The \<open>detail\<close> of an \<open>HTTPException\<close>, as its format with the arguments:
  \<^item> \<open>cursor_file_not_in_sources f ks\<close>: \<open>"cursor_file='%s' is not in sources=%s" % (f, ks)\<close>;
  \<^item> \<open>cursor_negative a b\<close>: \<open>"cursor0=%d or cursor1=%d is negative" % (a, b)\<close>;
  \<^item> \<open>cursor_beyond_file_length a b n\<close>: \<open>"cursor0=%d or cursor1=%d is beyond file length=%d" % (a, b, n)\<close>;
  \<^item> \<open>plain s\<close>: the string \<open>s\<close> itself;
  \<^item> \<open>model_mismatch p m\<close>: \<open>f"requested model '{p}' doesn't match server model '{m}'"\<close>;
  \<^item> \<open>unknown_model m\<close>: \<open>"unknown model '%s'" % m\<close>;
  \<^item> \<open>chat_not_available m\<close>: \<open>f"chat is not available for {m} model"\<close>.
\<close>

datatype detail =
    cursor_file_not_in_sources string "string list"
  | cursor_negative int int
  | cursor_beyond_file_length int int nat
  | plain string
  | model_mismatch string string
  | unknown_model string
  | chat_not_available string

datatype http_exception = HTTPException (status_code: nat) (detail: detail)

subsection \<open>\<open>CompletionRouter._completion\<close>\<close>

definition completion_request :: "(text_sampling_params \<Rightarrow> pydict) \<Rightarrow> string \<Rightarrow> text_sampling_params \<Rightarrow> pydict" where
  "completion_request clamp uuid post =
     dict_update (clamp post)
       [(''id'', PStr uuid),
        (''object'', PStr ''text_completion_req''),
        (''model'', PStr (model post)),
        (''prompt'', PStr (prompt post)),
        (''stop_tokens'', PList (map PStr (stop post))),
        (''stream'', PBool (stream post)),
        (''echo'', PBool (echo post))]"

text \<open>
  The third test is \<open>not self._inference.model_dict == 0\<close>, that is
  \<open>not (model_dict == 0)\<close>: the comparison of a \<open>dict\<close> with an \<open>int\<close>.
\<close>

definition completion ::
  "('r \<Rightarrow> string) \<Rightarrow> (text_sampling_params \<Rightarrow> pydict) \<Rightarrow> string \<Rightarrow> 'r inference \<Rightarrow>
   text_sampling_params \<Rightarrow> http_exception + string agen" where
  "completion dumps clamp uuid inference post =
     (let request = completion_request clamp uuid post in
      case model_name inference of
        None \<Rightarrow>
          Inl (HTTPException 401
                 (plain (case last_error inference of None \<Rightarrow> ''model is loading'' | Some err \<Rightarrow> err)))
      | Some name \<Rightarrow>
          if model post \<noteq> [] \<and> model post \<noteq> ''CONTRASTcode'' \<and> name \<noteq> model post then
            Inl (HTTPException 401 (model_mismatch (model post) name))
          else if \<not> (PDict (model_dict inference) = PInt 0) then
            Inl (HTTPException 401 (unknown_model name))
          else Inr (inference_streamer dumps request inference))"

subsection \<open>\<open>ContrastRouter._contrast\<close>\<close>

text \<open>
  Lines 177 to 195: the cursor checks, or the sentinels, and the \<open>highlight\<close> override;
  the result is \<open>post\<close> as the assignments leave it. \<open>cursor_file not in sources\<close> and
  the lookup \<open>sources[cursor_file]\<close> are the one \<open>map_of\<close>.
\<close>

definition contrast_validate :: "diff_sampling_params \<Rightarrow> http_exception + diff_sampling_params" where
  "contrast_validate post =
     (let highlight = (\<lambda>p. if func p = ''highlight'' then p\<lparr>max_tokens := 1\<rparr> else p) in
      if func post \<noteq> ''diff-anywhere'' then
        (case map_of (sources post) (cursor_file post) of
           None \<Rightarrow>
             Inl (HTTPException 400
                    (cursor_file_not_in_sources (cursor_file post) (map fst (sources post))))
         | Some filetext \<Rightarrow>
             if cursor0 post < 0 \<or> cursor1 post < 0 then
               Inl (HTTPException 400 (cursor_negative (cursor0 post) (cursor1 post)))
             else if cursor0 post > int (length filetext) \<or> cursor1 post > int (length filetext) then
               Inl (HTTPException 400
                      (cursor_beyond_file_length (cursor0 post) (cursor1 post) (length filetext)))
             else Inr (highlight post))
      else Inr (highlight (post\<lparr>cursor0 := - 1, cursor1 := - 1, cursor_file := []\<rparr>)))"

text \<open>Lines 196 to 210: the canonical request of the post that passed.\<close>

definition contrast_request :: "(diff_sampling_params \<Rightarrow> pydict) \<Rightarrow> string \<Rightarrow> diff_sampling_params \<Rightarrow> pydict" where
  "contrast_request clamp uuid post =
     dict_update (clamp post)
       [(''id'', PStr uuid),
        (''object'', PStr ''diff_completion_req''),
        (''model'', PStr (model post)),
        (''intent'', PStr (intent post)),
        (''sources'', PDict (map (\<lambda>(name, filetext). (name, PStr filetext)) (sources post))),
        (''cursor_file'', PStr (cursor_file post)),
        (''cursor0'', PInt (cursor0 post)),
        (''cursor1'', PInt (cursor1 post)),
        (''function'', PStr (func post)),
        (''max_edits'', PInt (max_edits post)),
        (''stop_tokens'', PList (map PStr (stop post))),
        (''stream'', PBool (stream post))]"

definition contrast ::
  "('r \<Rightarrow> string) \<Rightarrow> (diff_sampling_params \<Rightarrow> pydict) \<Rightarrow> string \<Rightarrow> 'r inference \<Rightarrow>
   diff_sampling_params \<Rightarrow> http_exception + string agen" where
  "contrast dumps clamp uuid inference post0 =
     (case contrast_validate post0 of
        Inl err \<Rightarrow> Inl err
      | Inr post \<Rightarrow>
          (let request = contrast_request clamp uuid post in
           case model_name inference of
             None \<Rightarrow>
               Inl (HTTPException 401
                      (plain (case last_error inference of None \<Rightarrow> ''model loading'' | Some err \<Rightarrow> err)))
           | Some name \<Rightarrow>
               if model post \<noteq> [] \<and> model post \<noteq> ''CONTRASTcode'' \<and> name \<noteq> model post then
                 Inl (HTTPException 401 (model_mismatch (model post) name))
               else if \<not> truthy (PDict (model_dict inference)) then
                 Inl (HTTPException 401 (unknown_model name))
               else Inr (inference_streamer dumps request inference)))"

subsection \<open>\<open>ChatRouter._chat\<close>\<close>

definition chat_request :: "(chat_sampling_params \<Rightarrow> pydict) \<Rightarrow> string \<Rightarrow> chat_sampling_params \<Rightarrow> pydict" where
  "chat_request clamp uuid post =
     dict_update (clamp post)
       [(''id'', PStr uuid),
        (''object'', PStr ''chat_completion_req''),
        (''model'', PStr (model post)),
        (''messages'',
           PList (map (\<lambda>(role, text). PDict [(''role'', PStr role), (''content'', PStr text)])
                    (messages post))),
        (''stop_tokens'', PList (map PStr (stop post))),
        (''stream'', PBool True)]"

definition chat ::
  "(snapshot \<Rightarrow> string) \<Rightarrow> (chat_sampling_params \<Rightarrow> pydict) \<Rightarrow> string \<Rightarrow> snapshot inference \<Rightarrow>
   chat_sampling_params \<Rightarrow> http_exception + string agen" where
  "chat dumps clamp uuid inference post =
     (let request = chat_request clamp uuid post in
      case model_name inference of
        None \<Rightarrow>
          Inl (HTTPException 401
                 (plain (case last_error inference of None \<Rightarrow> ''model loading'' | Some err \<Rightarrow> err)))
      | Some name \<Rightarrow>
          if \<not> chat_is_available inference then
            Inl (HTTPException 401 (chat_not_available name))
          else if model post \<noteq> [] \<and> name \<noteq> model post then
            Inl (HTTPException 401 (model_mismatch (model post) name))
          else if \<not> truthy (PDict (model_dict inference)) then
            Inl (HTTPException 401 (unknown_model name))
          else Inr (chat_delta_streamer dumps request inference))"


text \<open>The text recorded in \<open>seen\<close> for an index: \<open>seen.get(idx, "")\<close>.\<close>

definition seen_text :: "(int \<rightharpoonup> string) \<Rightarrow> int \<Rightarrow> string" where
  "seen_text seen idx = (case seen idx of None \<Rightarrow> [] | Some s \<Rightarrow> s)"

section \<open>Example inputs\<close>

text \<open>A backend with the model \<open>m1\<close> loaded, whose \<open>infer\<close> behaves as \<open>src\<close>.\<close>

definition example_inference :: "'r option agen \<Rightarrow> 'r inference" where
  "example_inference src =
     \<lparr>model_name = Some ''m1'', last_error = None,
      model_dict = [(''filter_caps'', PList [PStr ''completion''])],
      chat_is_available = True, infer = (\<lambda>request stream_val. src)\<rparr>"

text \<open>Two snapshots, already serialised, with an absent one between them.\<close>

definition example_snapshots :: "string option agen" where
  "example_snapshots = Yield (Some ''{}'') (Yield None (Yield (Some ''[1]'') StopAsyncIteration))"

text \<open>
  Two chat snapshots with the choices 0 and 1, an absent snapshot between them: choice 0
  grows from \<open>Hel\<close> to \<open>Hello\<close>, choice 1 from \<open>W\<close> to \<open>World\<close>.
\<close>

definition hello_snapshots :: "snapshot option agen" where
  "hello_snapshots =
     Yield (Some \<lparr>choices = Some [\<lparr>index = 0, content = Some ''Hel'', delta = None, choice_other = []\<rparr>,
                                   \<lparr>index = 1, content = Some ''W'', delta = None, choice_other = []\<rparr>],
                  snapshot_other = []\<rparr>)
       (Yield None
          (Yield (Some \<lparr>choices = Some [\<lparr>index = 0, content = Some ''Hello'', delta = None, choice_other = []\<rparr>,
                                        \<lparr>index = 1, content = Some ''World'', delta = None, choice_other = []\<rparr>],
                       snapshot_other = []\<rparr>)
             StopAsyncIteration))"

text \<open>A serialiser that writes every snapshot as the empty JSON object.\<close>

definition example_dumps :: "snapshot \<Rightarrow> string" where
  "example_dumps response = ''{}''"

text \<open>A \<open>clamp\<close> that returns the one control \<open>max_tokens\<close>.\<close>

definition example_clamp :: "'a sampling_params_scheme \<Rightarrow> pydict" where
  "example_clamp post = [(''max_tokens'', PInt (max_tokens post))]"

text \<open>One post for each endpoint.\<close>

definition example_text_post :: text_sampling_params where
  "example_text_post =
     \<lparr>model = [], stop = [], stream = True, max_tokens = 50, echo = False, prompt = ''def f():''\<rparr>"

definition example_diff_post :: diff_sampling_params where
  "example_diff_post =
     \<lparr>model = ''CONTRASTcode'', stop = [], stream = False, max_tokens = 50, echo = False,
      intent = ''Fix typo'', sources = [(''hello.py'', ''print(1)'')], cursor_file = ''hello.py'',
      cursor0 = 3, cursor1 = 5, func = ''diff-atcursor'', max_edits = 1\<rparr>"

definition example_chat_post :: chat_sampling_params where
  "example_chat_post =
     \<lparr>model = ''CONTRASTcode'', stop = [], stream = True, max_tokens = 50, echo = False,
      messages = [(''user'', ''hi'')]\<rparr>"

text \<open>Backend sequences that are cancelled after one snapshot.\<close>

definition cancelled_snapshots :: "string option agen" where
  "cancelled_snapshots = Yield (Some ''{}'') (Yield None (Raise CancelledError))"

definition cancelled_chat :: "snapshot option agen" where
  "cancelled_chat =
     Yield (Some \<lparr>choices = Some [\<lparr>index = 0, content = Some ''Hel'', delta = None, choice_other = []\<rparr>],
                  snapshot_other = []\<rparr>)
       (Raise CancelledError)"

text \<open>
  A backend, ready for the diff endpoint, whose \<open>infer\<close> yields one snapshot that tells
  the \<open>cursor_file\<close> of the request it was called with.
\<close>

definition echo_inference :: "string inference" where
  "echo_inference =
     \<lparr>model_name = Some ''m1'', last_error = None,
      model_dict = [(''filter_caps'', PList [PStr ''completion''])],
      chat_is_available = False,
      infer = (\<lambda>request stream_val.
                 Yield (Some (case map_of request ''cursor_file'' of
                                Some (PStr name) \<Rightarrow> ''cursor_file='' @ name
                              | _ \<Rightarrow> ''no cursor_file''))
                   StopAsyncIteration)\<rparr>"

section \<open>Properties of the plain streamer\<close>

lemma yielded_inference_loop_streaming:
  "yielded (inference_loop dumps True d src) =
     map (frame dumps) (non_none (yielded src)) @ (if raised src = None then [done_marker] else [])"
  by (induction dumps True d src rule: inference_loop.induct)
     (simp_all add: frame_def done_marker_def Let_def)

lemma yielded_inference_loop_single:
  "yielded (inference_loop dumps False d src) =
     (if raised src = None then [last (d # map dumps (non_none (yielded src)))] else [])"
  by (induction dumps False d src rule: inference_loop.induct) (simp_all add: Let_def)

lemma raised_inference_loop:
  "raised (inference_loop dumps flag d src) =
     (case raised src of None \<Rightarrow> None
      | Some e \<Rightarrow> if e = CancelledError then None else Some e)"
  by (induction dumps flag d src rule: inference_loop.induct) (simp_all add: Let_def)

lemma yielded_chat_delta_loop:
  "yielded (chat_delta_loop dumps seen src) =
     map (frame dumps) (chat_delta_payloads seen src) @ (if raised src = None then [done_marker] else [])"
  by (induction dumps seen src rule: chat_delta_loop.induct)
     (simp_all add: frame_def done_marker_def Let_def split: prod.splits)

lemma raised_chat_delta_loop:
  "raised (chat_delta_loop dumps seen src) =
     (case raised src of None \<Rightarrow> None
      | Some e \<Rightarrow> if e = CancelledError then None else Some e)"
  by (induction dumps seen src rule: chat_delta_loop.induct)
     (simp_all add: Let_def split: prod.splits)

lemma length_chat_delta_payloads:
  "length (chat_delta_payloads seen src) = length (non_none (yielded src))"
  by (induction seen src rule: chat_delta_payloads.induct) (simp_all split: prod.splits)

lemma frame_eq_done_marker: "frame dumps r = done_marker \<longleftrightarrow> dumps r = ''[DONE]''"
  by (simp add: frame_def done_marker_def)

lemma chat_choices_Cons:
  "chat_choices seen (ch # chs) =
     (fst (chat_choices (seen(index ch \<mapsto> content_of ch)) chs),
      ch\<lparr>delta := Some (drop (length (seen_text seen (index ch))) (content_of ch)), content := None\<rparr>
        # snd (chat_choices (seen(index ch \<mapsto> content_of ch)) chs))"
  by (simp add: Let_def content_of_def seen_text_def split: prod.splits)

lemma seen_text_upd:
  "seen_text (seen(i \<mapsto> c)) idx = (if idx = i then c else seen_text seen idx)"
  by (simp add: seen_text_def)

lemma chat_choices_seen:
  "seen_text (fst (chat_choices seen chs)) idx =
     last (seen_text seen idx # map content_of (filter (\<lambda>ch. index ch = idx) chs))"
proof (induction chs arbitrary: seen)
  case Nil
  then show ?case by simp
next
  case (Cons ch chs)
  define seen' where "seen' = seen(index ch \<mapsto> content_of ch)"
  have step: "chat_choices seen (ch # chs) =
      (fst (chat_choices seen' chs),
       ch\<lparr>delta := Some (drop (length (seen_text seen (index ch))) (content_of ch)), content := None\<rparr>
         # snd (chat_choices seen' chs))"
    unfolding seen'_def by (rule chat_choices_Cons)
  have here: "seen_text seen' idx = (if idx = index ch then content_of ch else seen_text seen idx)"
    unfolding seen'_def by (rule seen_text_upd)
  have "seen_text (fst (chat_choices seen' chs)) idx =
          last (seen_text seen' idx # map content_of (filter (\<lambda>ch. index ch = idx) chs))"
    by (rule Cons.IH)
  with here show ?case
    by (simp add: step del: chat_choices.simps(2))
qed

lemma chat_choices_deltas:
  "sorted_wrt prefix (seen_text seen idx # map content_of (filter (\<lambda>ch. index ch = idx) chs)) \<Longrightarrow>
   seen_text seen idx @ concat (map delta_of (filter (\<lambda>ch. index ch = idx) (snd (chat_choices seen chs)))) =
     last (seen_text seen idx # map content_of (filter (\<lambda>ch. index ch = idx) chs))"
proof (induction chs arbitrary: seen)
  case Nil
  then show ?case by simp
next
  case (Cons ch chs)
  define seen' where "seen' = seen(index ch \<mapsto> content_of ch)"
  define later where "later = map content_of (filter (\<lambda>ch. index ch = idx) chs)"
  define rest where
    "rest = concat (map delta_of (filter (\<lambda>ch. index ch = idx) (snd (chat_choices seen' chs))))"
  define ch' where
    "ch' = ch\<lparr>delta := Some (drop (length (seen_text seen (index ch))) (content_of ch)), content := None\<rparr>"
  have step: "snd (chat_choices seen (ch # chs)) = ch' # snd (chat_choices seen' chs)"
    unfolding seen'_def ch'_def by (simp add: chat_choices_Cons del: chat_choices.simps(2))
  have here: "seen_text seen' idx = (if idx = index ch then content_of ch else seen_text seen idx)"
    unfolding seen'_def by (rule seen_text_upd)
  have ch': "index ch' = index ch"
    "delta_of ch' = drop (length (seen_text seen (index ch))) (content_of ch)"
    unfolding ch'_def by (simp_all add: delta_of_def)
  have IH: "sorted_wrt prefix (seen_text seen' idx # later) \<Longrightarrow>
              seen_text seen' idx @ rest = last (seen_text seen' idx # later)"
    unfolding later_def rest_def by (rule Cons.IH)
  show ?case
  proof (cases "index ch = idx")
    case True
    from Cons.prems True have pre: "prefix (seen_text seen idx) (content_of ch)"
      and sorted: "sorted_wrt prefix (content_of ch # later)"
      by (simp_all add: later_def)
    from pre have glue: "seen_text seen idx @ drop (length (seen_text seen idx)) (content_of ch) = content_of ch"
      by (auto simp: prefix_def)
    from IH sorted True here have "content_of ch @ rest = last (content_of ch # later)"
      by simp
    then have "(seen_text seen idx @ drop (length (seen_text seen idx)) (content_of ch)) @ rest
                 = last (content_of ch # later)"
      by (simp only: glue)
    then show ?thesis
      using True ch' by (simp add: step later_def [symmetric] rest_def [symmetric] del: chat_choices.simps(2))
  next
    case False
    from Cons.prems False have "sorted_wrt prefix (seen_text seen idx # later)"
      by (simp add: later_def)
    with IH here False have "seen_text seen idx @ rest = last (seen_text seen idx # later)"
      by simp
    then show ?thesis
      using False ch' by (simp add: step later_def [symmetric] rest_def [symmetric] del: chat_choices.simps(2))
  qed
qed

lemma chat_response_None:
  "choices response = None \<Longrightarrow> chat_response seen response = (seen, response)"
  by (simp add: chat_response_def)

lemma chat_response_Some:
  "choices response = Some chs \<Longrightarrow>
   chat_response seen response =
     (fst (chat_choices seen chs), response\<lparr>choices := Some (snd (chat_choices seen chs))\<rparr>)"
  by (simp add: chat_response_def split: prod.splits)

lemma contents_for_Nil: "contents_for idx [] = []"
  by (simp add: contents_for_def choices_for_def)

lemma deltas_for_Nil: "deltas_for idx [] = []"
  by (simp add: deltas_for_def choices_for_def)

lemma contents_for_Cons:
  "contents_for idx (r # rs) =
     map content_of (filter (\<lambda>ch. index ch = idx) (choices_of r)) @ contents_for idx rs"
  by (simp add: contents_for_def choices_for_def)

lemma deltas_for_Cons:
  "deltas_for idx (r # rs) =
     map delta_of (filter (\<lambda>ch. index ch = idx) (choices_of r)) @ deltas_for idx rs"
  by (simp add: deltas_for_def choices_for_def)

lemma chat_response_seen:
  "seen_text (fst (chat_response seen response)) idx =
     last (seen_text seen idx # map content_of (filter (\<lambda>ch. index ch = idx) (choices_of response)))"
proof (cases "choices response")
  case None
  then show ?thesis
    by (simp add: chat_response_None choices_of_def)
next
  case (Some chs)
  then show ?thesis
    by (simp only: chat_response_Some [OF Some] fst_conv choices_of_def option.case chat_choices_seen)
qed

lemma chat_response_deltas:
  assumes "sorted_wrt prefix
             (seen_text seen idx # map content_of (filter (\<lambda>ch. index ch = idx) (choices_of response)))"
  shows "seen_text seen idx
           @ concat (map delta_of (filter (\<lambda>ch. index ch = idx) (choices_of (snd (chat_response seen response)))))
         = last (seen_text seen idx # map content_of (filter (\<lambda>ch. index ch = idx) (choices_of response)))"
proof (cases "choices response")
  case None
  then show ?thesis
    by (simp add: chat_response_None choices_of_def)
next
  case (Some chs)
  from assms Some
  have "sorted_wrt prefix (seen_text seen idx # map content_of (filter (\<lambda>ch. index ch = idx) chs))"
    by (simp add: choices_of_def)
  from chat_choices_deltas [OF this] Some show ?thesis
    by (simp add: chat_response_Some [OF Some] choices_of_def)
qed

lemma chat_delta_payloads_Some:
  "chat_delta_payloads seen (Yield (Some response) rest) =
     snd (chat_response seen response) # chat_delta_payloads (fst (chat_response seen response)) rest"
  by (simp split: prod.splits)

lemma sorted_wrt_last_step:
  assumes "sorted_wrt P (s # as @ bs)"
  shows "sorted_wrt P (s # as) \<and> sorted_wrt P (last (s # as) # bs)"
proof -
  from assms have "sorted_wrt P ((s # as) @ bs)" by simp
  then have a: "sorted_wrt P (s # as)" and b: "sorted_wrt P bs"
    and c: "\<forall>x\<in>set (s # as). \<forall>y\<in>set bs. P x y"
    unfolding sorted_wrt_append by blast+
  have "last (s # as) \<in> set (s # as)" by (rule last_in_set) simp
  with c have "\<forall>y\<in>set bs. P (last (s # as)) y" by blast
  with a b show ?thesis by simp
qed

lemma chat_delta_payloads_deltas:
  "sorted_wrt prefix (seen_text seen idx # contents_for idx (non_none (yielded src))) \<Longrightarrow>
   seen_text seen idx @ concat (deltas_for idx (chat_delta_payloads seen src)) =
     last (seen_text seen idx # contents_for idx (non_none (yielded src)))"
proof (induction src arbitrary: seen)
  case StopAsyncIteration
  then show ?case by (simp add: deltas_for_Nil contents_for_Nil)
next
  case (Raise e)
  then show ?case by (simp add: deltas_for_Nil contents_for_Nil)
next
  case (Yield item rest)
  show ?case
  proof (cases item)
    case None
    with Yield show ?thesis by simp
  next
    case (Some response)
    define seen' where "seen' = fst (chat_response seen response)"
    define response' where "response' = snd (chat_response seen response)"
    define here where "here = map content_of (filter (\<lambda>ch. index ch = idx) (choices_of response))"
    define later where "later = contents_for idx (non_none (yielded rest))"
    define dhere where "dhere = concat (map delta_of (filter (\<lambda>ch. index ch = idx) (choices_of response')))"
    define dlater where "dlater = concat (deltas_for idx (chat_delta_payloads seen' rest))"
    have seen': "seen_text seen' idx = last (seen_text seen idx # here)"
      unfolding seen'_def here_def by (rule chat_response_seen)
    from Yield.prems Some have "sorted_wrt prefix (seen_text seen idx # here @ later)"
      by (simp add: contents_for_Cons here_def later_def)
    note both = sorted_wrt_last_step [OF this]
    have one: "sorted_wrt prefix (seen_text seen idx # here)"
      by (rule both [THEN conjunct1])
    have two: "sorted_wrt prefix (last (seen_text seen idx # here) # later)"
      by (rule both [THEN conjunct2])
    from two have "sorted_wrt prefix (seen_text seen' idx # later)"
      by (simp only: seen')
    then have l: "seen_text seen' idx @ dlater = last (seen_text seen' idx # later)"
      unfolding later_def dlater_def by (rule Yield.IH)
    have h: "seen_text seen idx @ dhere = seen_text seen' idx"
      using chat_response_deltas [of seen idx response] one
      by (simp only: seen' here_def dhere_def response'_def)
    have "seen_text seen idx @ concat (deltas_for idx (chat_delta_payloads seen (Yield (Some response) rest)))
            = (seen_text seen idx @ dhere) @ dlater"
      by (simp add: chat_delta_payloads_Some deltas_for_Cons dhere_def dlater_def seen'_def response'_def
               del: chat_delta_payloads.simps)
    also have "\<dots> = last (seen_text seen' idx # later)"
      by (simp only: h l)
    also have "\<dots> = last (seen_text seen idx # here @ later)"
      by (simp add: seen')
    finally show ?thesis
      using Some by (simp add: contents_for_Cons here_def later_def del: chat_delta_payloads.simps)
  qed
qed

lemma monotone_prefixes_sorted:
  assumes "monotone_prefixes_of final cs"
  shows "sorted_wrt prefix ([] # cs)"
proof -
  from assms have pre: "\<And>c. c \<in> set cs \<Longrightarrow> prefix c final"
    and len: "sorted_wrt (\<lambda>a b. length a \<le> length b) cs"
    by (simp_all add: monotone_prefixes_of_def list_all_iff sorted_wrt_map)
  have "sorted_wrt prefix cs"
    using len
  proof (rule sorted_wrt_mono_rel [rotated])
    fix a b
    assume "a \<in> set cs" "b \<in> set cs" "length a \<le> length b"
    with pre show "prefix a b" by (blast intro: prefix_length_prefix)
  qed
  then show ?thesis by simp
qed

lemma seen_text_empty: "seen_text Map.empty idx = []"
  by (simp add: seen_text_def)

lemma done_marker_eq_frame: "done_marker = frame dumps r \<longleftrightarrow> dumps r = ''[DONE]''"
  by (auto simp: frame_def done_marker_def)

lemma done_marker_not_framed:
  "\<forall>r. dumps r \<noteq> ''[DONE]'' \<Longrightarrow> done_marker \<notin> set (map (frame dumps) rs)"
  by (auto simp: done_marker_eq_frame)

section \<open>Properties of the endpoints\<close>

text \<open>What \<open>request.update\<close> stores wins over whatever \<open>clamp\<close> returned.\<close>

lemma contrast_request_lookup:
  "map_of (contrast_request clamp uuid p) ''cursor0'' = Some (PInt (cursor0 p))"
  "map_of (contrast_request clamp uuid p) ''cursor1'' = Some (PInt (cursor1 p))"
  "map_of (contrast_request clamp uuid p) ''cursor_file'' = Some (PStr (cursor_file p))"
  "map_of (contrast_request clamp uuid p) ''stream'' = Some (PBool (stream p))"
  by (simp_all add: contrast_request_def dict_update_def update_conv')

lemma contrast_validate_model:
  "contrast_validate post = Inr post' \<Longrightarrow> model post' = model post"
  by (auto simp: contrast_validate_def Let_def split: if_splits option.splits)

text \<open>The text completion endpoint rejects every request.\<close>

lemma completion_never_streams:
  "\<exists>err. completion dumps clamp uuid inference post = Inl err \<and> status_code err = 401"
  by (simp add: completion_def Let_def split: option.splits)

text \<open>
  The diff and the chat endpoint test \<open>not self._inference.model_dict\<close>: past the
  earlier tests they reject the request as an unknown model exactly when the model
  dictionary is empty.
\<close>

lemma contrast_unknown_model_iff:
  assumes "contrast_validate post = Inr post'"
    and "model_name inference = Some name"
    and "\<not> (model post \<noteq> [] \<and> model post \<noteq> ''CONTRASTcode'' \<and> name \<noteq> model post)"
  shows "contrast dumps clamp uuid inference post = Inl (HTTPException 401 (unknown_model name))
           \<longleftrightarrow> model_dict inference = []"
  using assms contrast_validate_model [OF assms(1)]
  by (auto simp: contrast_def Let_def)

lemma chat_unknown_model_iff:
  assumes "model_name inference = Some name"
    and "chat_is_available inference"
    and "\<not> (model post \<noteq> [] \<and> name \<noteq> model post)"
  shows "chat dumps clamp uuid inference post = Inl (HTTPException 401 (unknown_model name))
           \<longleftrightarrow> model_dict inference = []"
  using assms by (auto simp: chat_def Let_def)

section \<open>Claims\<close>

text \<open>
  C1. The delta reconstruction law. Whatever the backend sequence and however it ends: if
  the cumulative contents that the snapshots carry for the choice index \<open>idx\<close> (the empty
  string where the key \<open>content\<close> is absent) are monotonically non-decreasing prefixes of
  a text \<open>final\<close>, then the \<open>delta\<close> strings that the chat delta streamer emits for
  \<open>idx\<close>, concatenated in emission order, are the last cumulative content of \<open>idx\<close>. The
  chunks of the streamer are the framed serialisations of the snapshots that carry these
  deltas.
\<close>

theorem chat_delta_reconstruction:
  assumes "src = infer inference request (PBool True)"
    and "monotone_prefixes_of final (contents_for idx (non_none (yielded src)))"
  shows "yielded (chat_delta_streamer dumps request inference) =
           map (\<lambda>response. ''data: '' @ dumps response @ nl @ nl) (chat_delta_payloads Map.empty src)
             @ (if raised src = None then [''data: [DONE]'' @ nl @ nl] else [])
         \<and> concat (deltas_for idx (chat_delta_payloads Map.empty src)) =
             final_content idx (non_none (yielded src))"
proof -
  have "sorted_wrt prefix (seen_text Map.empty idx # contents_for idx (non_none (yielded src)))"
    using monotone_prefixes_sorted [OF assms(2)] by (simp only: seen_text_empty)
  from chat_delta_payloads_deltas [OF this]
  have "concat (deltas_for idx (chat_delta_payloads Map.empty src)) =
          final_content idx (non_none (yielded src))"
    by (simp add: seen_text_empty final_content_def)
  moreover have "yielded (chat_delta_streamer dumps request inference) =
           map (\<lambda>response. ''data: '' @ dumps response @ nl @ nl) (chat_delta_payloads Map.empty src)
             @ (if raised src = None then [''data: [DONE]'' @ nl @ nl] else [])"
    using yielded_chat_delta_loop [of dumps Map.empty src]
    by (simp add: chat_delta_streamer_def assms(1) frame_def [abs_def] done_marker_def)
  ultimately show ?thesis by simp
qed


theorem chat_delta_reconstruction_witness:
  "monotone_prefixes_of ''Hello, world'' (contents_for 0 (non_none (yielded hello_snapshots)))
   \<and> contents_for 0 (non_none (yielded hello_snapshots)) = [''Hel'', ''Hello'']
   \<and> deltas_for 0 (chat_delta_payloads Map.empty hello_snapshots) = [''Hel'', ''lo'']
   \<and> concat (deltas_for 0 (chat_delta_payloads Map.empty hello_snapshots)) = ''Hello''
   \<and> final_content 0 (non_none (yielded hello_snapshots)) = ''Hello''"
proof -
  have h1: "hello_snapshots = infer (example_inference hello_snapshots) [] (PBool True)"
    by (simp add: example_inference_def)
  have cs: "contents_for 0 (non_none (yielded hello_snapshots)) = [''Hel'', ''Hello'']"
    by (simp add: hello_snapshots_def contents_for_def choices_for_def choices_of_def content_of_def)
  have h2: "monotone_prefixes_of ''Hello, world'' (contents_for 0 (non_none (yielded hello_snapshots)))"
    by (simp add: cs monotone_prefixes_of_def)
  have ds: "deltas_for 0 (chat_delta_payloads Map.empty hello_snapshots) = [''Hel'', ''lo'']"
    by (simp add: hello_snapshots_def chat_response_def deltas_for_def choices_for_def choices_of_def
          delta_of_def Let_def)
  show ?thesis
    using h2 cs ds chat_delta_reconstruction [OF h1 h2, of "\<lambda>r. ''{}''"]
    by simp
qed

text \<open>
  C2. A request whose \<open>stream\<close> is true and a backend sequence that ends normally: the
  plain streamer yields, in arrival order, one chunk \<open>"data: " + json.dumps(snapshot) +
  "\n\n"\<close> for each snapshot that is not \<open>None\<close>, then the one chunk
  \<open>"data: [DONE]\n\n"\<close>, and returns; a \<open>None\<close> snapshot yields nothing.
\<close>

theorem plain_streaming_chunks:
  assumes "map_of request ''stream'' = Some (PBool True)"
    and "src = infer inference request (PBool True)"
    and "raised src = None"
  shows "yielded (inference_streamer dumps request inference) =
           map (\<lambda>response. ''data: '' @ dumps response @ nl @ nl) (non_none (yielded src))
             @ [''data: [DONE]'' @ nl @ nl]
         \<and> raised (inference_streamer dumps request inference) = None"
  using assms
  by (simp add: inference_streamer_def yielded_inference_loop_streaming raised_inference_loop
        frame_def done_marker_def)

theorem plain_streaming_chunks_witness:
  "map_of [(''stream'', PBool True)] ''stream'' = Some (PBool True)
   \<and> raised example_snapshots = None
   \<and> yielded (inference_streamer (\<lambda>s. s) [(''stream'', PBool True)] (example_inference example_snapshots))
       = [''data: {}'' @ nl @ nl, ''data: [1]'' @ nl @ nl, ''data: [DONE]'' @ nl @ nl]
   \<and> raised (inference_streamer (\<lambda>s. s) [(''stream'', PBool True)] (example_inference example_snapshots)) = None"
proof -
  have h1: "map_of [(''stream'', PBool True)] ''stream'' = Some (PBool True)" by simp
  have h2: "example_snapshots =
              infer (example_inference example_snapshots) [(''stream'', PBool True)] (PBool True)"
    by (simp add: example_inference_def)
  have h3: "raised example_snapshots = None" by (simp add: example_snapshots_def)
  show ?thesis
    using h1 h3 plain_streaming_chunks [OF h1 h2 h3, of "\<lambda>s. s"]
    by (simp add: example_snapshots_def)
qed

text \<open>
  C3. A request whose \<open>stream\<close> is false and a backend sequence that ends normally after at
  least one snapshot that is not \<open>None\<close>: the plain streamer yields exactly one chunk, the
  bare \<open>json.dumps\<close> of the last such snapshot, with no \<open>"data: "\<close> prefix and no
  terminal marker, however many snapshots there were.
\<close>

theorem plain_single_chunk:
  assumes "map_of request ''stream'' = Some (PBool False)"
    and "src = infer inference request (PBool False)"
    and "raised src = None"
    and "non_none (yielded src) \<noteq> []"
  shows "yielded (inference_streamer dumps request inference) = [dumps (last (non_none (yielded src)))]
         \<and> raised (inference_streamer dumps request inference) = None"
  using assms
  by (simp add: inference_streamer_def yielded_inference_loop_single raised_inference_loop last_map)

theorem plain_single_chunk_witness:
  "map_of [(''stream'', PBool False)] ''stream'' = Some (PBool False)
   \<and> raised example_snapshots = None
   \<and> non_none (yielded example_snapshots) = [''{}'', ''[1]'']
   \<and> yielded (inference_streamer (\<lambda>s. s) [(''stream'', PBool False)] (example_inference example_snapshots))
       = [''[1]'']
   \<and> raised (inference_streamer (\<lambda>s. s) [(''stream'', PBool False)] (example_inference example_snapshots)) = None"
proof -
  have h1: "map_of [(''stream'', PBool False)] ''stream'' = Some (PBool False)" by simp
  have h2: "example_snapshots =
              infer (example_inference example_snapshots) [(''stream'', PBool False)] (PBool False)"
    by (simp add: example_inference_def)
  have h3: "raised example_snapshots = None" by (simp add: example_snapshots_def)
  have h4: "non_none (yielded example_snapshots) \<noteq> []" by (simp add: example_snapshots_def)
  show ?thesis
    using h1 h3 plain_single_chunk [OF h1 h2 h3 h4, of "\<lambda>s. s"]
    by (simp add: example_snapshots_def)
qed

text \<open>
  C4. A diff post whose \<open>function\<close> is not \<open>diff-anywhere\<close>, whatever the state of the
  backend: if \<open>cursor_file\<close> is not a key of \<open>sources\<close> the endpoint rejects it with
  status 400 for that, whatever the cursors are; otherwise, if a cursor is negative, with
  status 400 for that, whatever the length of the file is; otherwise, if a cursor is
  beyond the length of the text of \<open>cursor_file\<close>, with status 400 for that; otherwise
  any rejection has status 401.
\<close>

theorem contrast_cursor_checks:
  assumes "func post \<noteq> ''diff-anywhere''"
  shows "(cursor_file post \<notin> set (map fst (sources post)) \<longrightarrow>
            contrast dumps clamp uuid inference post =
              Inl (HTTPException 400
                     (cursor_file_not_in_sources (cursor_file post) (map fst (sources post)))))
       \<and> (\<forall>filetext. map_of (sources post) (cursor_file post) = Some filetext \<longrightarrow>
            (cursor0 post < 0 \<or> cursor1 post < 0 \<longrightarrow>
               contrast dumps clamp uuid inference post =
                 Inl (HTTPException 400 (cursor_negative (cursor0 post) (cursor1 post))))
          \<and> (0 \<le> cursor0 post \<and> 0 \<le> cursor1 post
               \<and> (cursor0 post > int (length filetext) \<or> cursor1 post > int (length filetext)) \<longrightarrow>
               contrast dumps clamp uuid inference post =
                 Inl (HTTPException 400
                        (cursor_beyond_file_length (cursor0 post) (cursor1 post) (length filetext))))
          \<and> (0 \<le> cursor0 post \<and> 0 \<le> cursor1 post
               \<and> cursor0 post \<le> int (length filetext) \<and> cursor1 post \<le> int (length filetext) \<longrightarrow>
               (\<forall>err. contrast dumps clamp uuid inference post = Inl err \<longrightarrow> status_code err = 401)))"
proof -
  have absent: "map_of (sources post) (cursor_file post) = None"
    if "cursor_file post \<notin> set (map fst (sources post))"
    using that by (simp add: map_of_eq_None_iff)
  show ?thesis
    using assms absent
    by (auto simp: contrast_def contrast_validate_def Let_def split: option.splits if_splits)
qed

theorem contrast_cursor_checks_witness:
  "func example_diff_post \<noteq> ''diff-anywhere''
   \<and> contrast id example_clamp ''uuid'' (example_inference example_snapshots)
        (example_diff_post\<lparr>cursor_file := ''other.py'', cursor0 := - 1\<rparr>)
       = Inl (HTTPException 400 (cursor_file_not_in_sources ''other.py'' [''hello.py'']))
   \<and> contrast id example_clamp ''uuid'' (example_inference example_snapshots)
        (example_diff_post\<lparr>cursor0 := - 1, cursor1 := 100\<rparr>)
       = Inl (HTTPException 400 (cursor_negative (- 1) 100))
   \<and> contrast id example_clamp ''uuid'' (example_inference example_snapshots)
        (example_diff_post\<lparr>cursor1 := 9\<rparr>)
       = Inl (HTTPException 400 (cursor_beyond_file_length 3 9 8))
   \<and> \<not> isl (contrast id example_clamp ''uuid'' (example_inference example_snapshots)
              (example_diff_post\<lparr>cursor1 := 8\<rparr>))"
proof -
  note t = contrast_cursor_checks [where dumps = id and clamp = example_clamp
      and uuid = "''uuid''" and inference = "example_inference example_snapshots"]
  have h: "func example_diff_post \<noteq> ''diff-anywhere''"
    by (simp add: example_diff_post_def)
  show ?thesis
    using h
      t [where post = "example_diff_post\<lparr>cursor_file := ''other.py'', cursor0 := - 1\<rparr>"]
      t [where post = "example_diff_post\<lparr>cursor0 := - 1, cursor1 := 100\<rparr>"]
      t [where post = "example_diff_post\<lparr>cursor1 := 9\<rparr>"]
      t [where post = "example_diff_post\<lparr>cursor1 := 8\<rparr>"]
    by (simp add: example_diff_post_def contrast_def contrast_validate_def example_inference_def Let_def)
qed

text \<open>
  C5, at the text completion endpoint. The backend has the model \<open>m1\<close> loaded and a
  model dictionary that is not empty; the post names no model. The endpoint rejects the
  request with status 401 and the detail \<open>unknown model 'm1'\<close>: its test
  \<open>not self._inference.model_dict == 0\<close> holds for every dictionary.
\<close>

theorem completion_unknown_model_nonempty_dict:
  "model_dict (example_inference example_snapshots) = [(''filter_caps'', PList [PStr ''completion''])]
   \<and> model_name (example_inference example_snapshots) = Some ''m1''
   \<and> completion id example_clamp ''uuid'' (example_inference example_snapshots) example_text_post
       = Inl (HTTPException 401 (unknown_model ''m1''))"
  by (simp add: completion_def example_inference_def example_text_post_def Let_def)

text \<open>
  C6, as the code has it. With a model loaded, the text completion endpoint, and the diff
  endpoint once the post has passed the cursor checks, reject the request with status 401
  and the detail naming both models exactly when the post's model name is not empty, is
  not \<open>CONTRASTcode\<close> and is not the loaded model name. The chat endpoint, with a model
  loaded and chat available, rejects it so exactly when the post's model name is not empty
  and is not the loaded model name: \<open>CONTRASTcode\<close> is not a wildcard there. An empty
  model name is never rejected so.
\<close>

theorem model_mismatch_rejection:
  assumes "model_name inference = Some name"
    and "model_name cinference = Some cname"
  shows "((completion dumps tclamp uuid inference tpost
             = Inl (HTTPException 401 (model_mismatch (model tpost) name)))
          \<longleftrightarrow> (model tpost \<noteq> [] \<and> model tpost \<noteq> ''CONTRASTcode'' \<and> model tpost \<noteq> name))
       \<and> (\<forall>post'. contrast_validate dpost = Inr post' \<longrightarrow>
            ((contrast dumps dclamp uuid inference dpost
                = Inl (HTTPException 401 (model_mismatch (model dpost) name)))
             \<longleftrightarrow> (model dpost \<noteq> [] \<and> model dpost \<noteq> ''CONTRASTcode'' \<and> model dpost \<noteq> name)))
       \<and> (chat_is_available cinference \<longrightarrow>
            ((chat cdumps cclamp uuid cinference cpost
                = Inl (HTTPException 401 (model_mismatch (model cpost) cname)))
             \<longleftrightarrow> (model cpost \<noteq> [] \<and> model cpost \<noteq> cname)))"
proof -
  have one: "(completion dumps tclamp uuid inference tpost
                = Inl (HTTPException 401 (model_mismatch (model tpost) name)))
             \<longleftrightarrow> (model tpost \<noteq> [] \<and> model tpost \<noteq> ''CONTRASTcode'' \<and> model tpost \<noteq> name)"
    using assms(1) by (auto simp: completion_def Let_def)
  have two: "(contrast dumps dclamp uuid inference dpost
                = Inl (HTTPException 401 (model_mismatch (model dpost) name)))
             \<longleftrightarrow> (model dpost \<noteq> [] \<and> model dpost \<noteq> ''CONTRASTcode'' \<and> model dpost \<noteq> name)"
    if "contrast_validate dpost = Inr post'" for post'
    using assms(1) that contrast_validate_model [OF that]
    by (auto simp: contrast_def Let_def)
  have three: "(chat cdumps cclamp uuid cinference cpost
                = Inl (HTTPException 401 (model_mismatch (model cpost) cname)))
             \<longleftrightarrow> (model cpost \<noteq> [] \<and> model cpost \<noteq> cname)"
    if "chat_is_available cinference"
    using assms(2) that by (auto simp: chat_def Let_def)
  from one two three show ?thesis by blast
qed

theorem model_mismatch_rejection_witness:
  "model_name (example_inference example_snapshots) = Some ''m1''
   \<and> completion id example_clamp ''uuid'' (example_inference example_snapshots)
        (example_text_post\<lparr>model := ''m2''\<rparr>)
       = Inl (HTTPException 401 (model_mismatch ''m2'' ''m1''))
   \<and> contrast_validate example_diff_post = Inr example_diff_post
   \<and> contrast id example_clamp ''uuid'' (example_inference example_snapshots) example_diff_post
       \<noteq> Inl (HTTPException 401 (model_mismatch ''CONTRASTcode'' ''m1''))
   \<and> model_name (example_inference hello_snapshots) = Some ''m1''
   \<and> chat_is_available (example_inference hello_snapshots)
   \<and> chat example_dumps example_clamp ''uuid'' (example_inference hello_snapshots)
        (example_chat_post\<lparr>model := ''m2''\<rparr>)
       = Inl (HTTPException 401 (model_mismatch ''m2'' ''m1''))
   \<and> chat example_dumps example_clamp ''uuid'' (example_inference hello_snapshots)
        (example_chat_post\<lparr>model := []\<rparr>)
       \<noteq> Inl (HTTPException 401 (model_mismatch [] ''m1''))"
proof -
  have h1: "model_name (example_inference example_snapshots) = Some ''m1''"
    by (simp add: example_inference_def)
  have h2: "model_name (example_inference hello_snapshots) = Some ''m1''"
    by (simp add: example_inference_def)
  have v: "contrast_validate example_diff_post = Inr example_diff_post"
    by (simp add: contrast_validate_def example_diff_post_def Let_def)
  have a: "chat_is_available (example_inference hello_snapshots)"
    by (simp add: example_inference_def)
  note m2 = model_mismatch_rejection [OF h1 h2, where dumps = id and tclamp = example_clamp
      and dclamp = example_clamp and cclamp = example_clamp and cdumps = example_dumps
      and uuid = "''uuid''" and tpost = "example_text_post\<lparr>model := ''m2''\<rparr>"
      and dpost = example_diff_post and cpost = "example_chat_post\<lparr>model := ''m2''\<rparr>"]
  note empty = model_mismatch_rejection [OF h1 h2, where dumps = id and tclamp = example_clamp
      and dclamp = example_clamp and cclamp = example_clamp and cdumps = example_dumps
      and uuid = "''uuid''" and tpost = "example_text_post\<lparr>model := ''m2''\<rparr>"
      and dpost = example_diff_post and cpost = "example_chat_post\<lparr>model := []\<rparr>"]
  show ?thesis
    using m2 empty h1 h2 v a
    by (simp add: example_diff_post_def)
qed

text \<open>
  C6, as the claim states it, fails at the chat endpoint: with the model \<open>m1\<close> loaded and
  chat available, the post that names the model \<open>CONTRASTcode\<close> is rejected with status
  401 and the detail naming both models.
\<close>

theorem chat_wildcard_mismatch:
  "model_name (example_inference hello_snapshots) = Some ''m1''
   \<and> model example_chat_post = ''CONTRASTcode''
   \<and> chat example_dumps example_clamp ''uuid'' (example_inference hello_snapshots) example_chat_post
       = Inl (HTTPException 401 (model_mismatch ''CONTRASTcode'' ''m1''))"
  by (simp add: chat_def example_inference_def example_chat_post_def Let_def)

text \<open>
  C7. A diff post whose \<open>function\<close> is \<open>diff-anywhere\<close>, whatever its cursors and its
  cursor file are: no cursor check is made and the three fields are overwritten. The
  canonical request is built from the post so overwritten: it has \<open>cursor0\<close> and
  \<open>cursor1\<close> equal to \<open>-1\<close> and \<open>cursor_file\<close> equal to the empty string. The
  endpoint then either rejects the post with status 401, for the state of the backend, or
  answers with the plain streamer on this very request, which is the request that
  \<open>infer\<close> is called with; it never rejects the post with status 400.
\<close>

theorem diff_anywhere_sentinels:
  assumes "func post = ''diff-anywhere''"
  shows "\<exists>request.
           request = contrast_request clamp uuid (post\<lparr>cursor0 := - 1, cursor1 := - 1, cursor_file := []\<rparr>)
         \<and> contrast_validate post = Inr (post\<lparr>cursor0 := - 1, cursor1 := - 1, cursor_file := []\<rparr>)
         \<and> map_of request ''cursor0'' = Some (PInt (- 1))
         \<and> map_of request ''cursor1'' = Some (PInt (- 1))
         \<and> map_of request ''cursor_file'' = Some (PStr [])
         \<and> contrast dumps clamp uuid inference post =
             (case model_name inference of
                None \<Rightarrow>
                  Inl (HTTPException 401
                         (plain (case last_error inference of None \<Rightarrow> ''model loading'' | Some err \<Rightarrow> err)))
              | Some name \<Rightarrow>
                  if model post \<noteq> [] \<and> model post \<noteq> ''CONTRASTcode'' \<and> name \<noteq> model post then
                    Inl (HTTPException 401 (model_mismatch (model post) name))
                  else if model_dict inference = [] then
                    Inl (HTTPException 401 (unknown_model name))
                  else Inr (inference_streamer dumps request inference))
         \<and> inference_streamer dumps request inference =
             inference_loop dumps (stream post) [] (infer inference request (PBool (stream post)))
         \<and> (\<forall>err. contrast dumps clamp uuid inference post = Inl err \<longrightarrow> status_code err = 401)"
proof -
  define post' where "post' = post\<lparr>cursor0 := - 1, cursor1 := - 1, cursor_file := []\<rparr>"
  define request where "request = contrast_request clamp uuid post'"
  have v: "contrast_validate post = Inr post'"
    using assms by (simp add: contrast_validate_def Let_def post'_def)
  have fields: "cursor0 post' = - 1" "cursor1 post' = - 1" "cursor_file post' = []"
    "stream post' = stream post" "model post' = model post"
    by (simp_all add: post'_def)
  have look: "map_of request ''cursor0'' = Some (PInt (- 1))"
    "map_of request ''cursor1'' = Some (PInt (- 1))"
    "map_of request ''cursor_file'' = Some (PStr [])"
    "map_of request ''stream'' = Some (PBool (stream post))"
    unfolding request_def by (simp_all add: contrast_request_lookup fields)
  have result: "contrast dumps clamp uuid inference post =
             (case model_name inference of
                None \<Rightarrow>
                  Inl (HTTPException 401
                         (plain (case last_error inference of None \<Rightarrow> ''model loading'' | Some err \<Rightarrow> err)))
              | Some name \<Rightarrow>
                  if model post \<noteq> [] \<and> model post \<noteq> ''CONTRASTcode'' \<and> name \<noteq> model post then
                    Inl (HTTPException 401 (model_mismatch (model post) name))
                  else if model_dict inference = [] then
                    Inl (HTTPException 401 (unknown_model name))
                  else Inr (inference_streamer dumps request inference))"
    by (simp add: contrast_def v Let_def request_def fields split: option.splits)
  have streamer: "inference_streamer dumps request inference =
             inference_loop dumps (stream post) [] (infer inference request (PBool (stream post)))"
    by (simp add: inference_streamer_def look)
  have status: "\<forall>err. contrast dumps clamp uuid inference post = Inl err \<longrightarrow> status_code err = 401"
    by (auto simp: result split: option.splits if_splits)
  from v look(1,2,3) result streamer status show ?thesis
    unfolding request_def post'_def by blast
qed

theorem diff_anywhere_sentinels_witness:
  "func (example_diff_post\<lparr>func := ''diff-anywhere'', cursor_file := ''other.py'', cursor0 := - 7, cursor1 := 1000\<rparr>)
     = ''diff-anywhere''
   \<and> contrast_validate
        (example_diff_post\<lparr>func := ''diff-anywhere'', cursor_file := ''other.py'', cursor0 := - 7, cursor1 := 1000\<rparr>)
       = Inr (example_diff_post\<lparr>func := ''diff-anywhere'', cursor_file := [], cursor0 := - 1, cursor1 := - 1\<rparr>)
   \<and> map_of (contrast_request example_clamp ''uuid''
               (example_diff_post\<lparr>func := ''diff-anywhere'', cursor_file := [], cursor0 := - 1, cursor1 := - 1\<rparr>))
        ''cursor0'' = Some (PInt (- 1))
   \<and> map_of (contrast_request example_clamp ''uuid''
               (example_diff_post\<lparr>func := ''diff-anywhere'', cursor_file := [], cursor0 := - 1, cursor1 := - 1\<rparr>))
        ''cursor1'' = Some (PInt (- 1))
   \<and> map_of (contrast_request example_clamp ''uuid''
               (example_diff_post\<lparr>func := ''diff-anywhere'', cursor_file := [], cursor0 := - 1, cursor1 := - 1\<rparr>))
        ''cursor_file'' = Some (PStr [])
   \<and> contrast id example_clamp ''uuid'' echo_inference
        (example_diff_post\<lparr>func := ''diff-anywhere'', cursor_file := ''other.py'', cursor0 := - 7, cursor1 := 1000\<rparr>)
       = Inr (inference_streamer id
                (contrast_request example_clamp ''uuid''
                   (example_diff_post\<lparr>func := ''diff-anywhere'', cursor_file := [], cursor0 := - 1, cursor1 := - 1\<rparr>))
                echo_inference)
   \<and> contrast id example_clamp ''uuid'' echo_inference
        (example_diff_post\<lparr>func := ''diff-anywhere'', cursor_file := ''other.py'', cursor0 := - 7, cursor1 := 1000\<rparr>)
       = Inr (Yield ''cursor_file='' StopAsyncIteration)"
proof -
  have h: "func (example_diff_post\<lparr>func := ''diff-anywhere'', cursor_file := ''other.py'', cursor0 := - 7, cursor1 := 1000\<rparr>)
             = ''diff-anywhere''"
    by simp
  have m: "model_name echo_inference = Some ''m1''" "model_dict echo_inference \<noteq> []"
    "infer echo_inference request flag =
       Yield (Some (case map_of request ''cursor_file'' of
                      Some (PStr name) \<Rightarrow> ''cursor_file='' @ name
                    | _ \<Rightarrow> ''no cursor_file''))
         StopAsyncIteration" for request flag
    by (simp_all add: echo_inference_def)
  show ?thesis
    using diff_anywhere_sentinels [OF h, where dumps = id and clamp = example_clamp
      and uuid = "''uuid''" and inference = echo_inference]
    by (simp add: m example_diff_post_def)
qed

text \<open>
  C8. A backend sequence that ends normally, also one with no snapshot or with \<open>None\<close>
  snapshots only: the chat delta streamer yields one framed chunk for each snapshot that
  is not \<open>None\<close> and then, as its last output, the chunk \<open>"data: [DONE]\n\n"\<close>, and
  returns. Where \<open>json.dumps\<close> never returns the text \<open>[DONE]\<close> (it returns the text of
  a JSON object), this chunk occurs exactly once.
\<close>

theorem chat_terminal_marker:
  assumes "src = infer inference request (PBool True)"
    and "raised src = None"
  shows "yielded (chat_delta_streamer dumps request inference) =
           map (\<lambda>response. ''data: '' @ dumps response @ nl @ nl) (chat_delta_payloads Map.empty src)
             @ [''data: [DONE]'' @ nl @ nl]
         \<and> length (chat_delta_payloads Map.empty src) = length (non_none (yielded src))
         \<and> raised (chat_delta_streamer dumps request inference) = None
         \<and> ((\<forall>response. dumps response \<noteq> ''[DONE]'') \<longrightarrow>
              count_list (yielded (chat_delta_streamer dumps request inference)) (''data: [DONE]'' @ nl @ nl) = 1)"
proof -
  have chunks: "yielded (chat_delta_streamer dumps request inference) =
                  map (frame dumps) (chat_delta_payloads Map.empty src) @ [done_marker]"
    using assms by (simp add: chat_delta_streamer_def yielded_chat_delta_loop)
  have "count_list (map (frame dumps) rs) done_marker = 0" if "\<forall>response. dumps response \<noteq> ''[DONE]''" for rs
    using done_marker_not_framed [OF that, of rs] by (simp add: count_list_0_iff)
  then have "(\<forall>response. dumps response \<noteq> ''[DONE]'') \<longrightarrow>
               count_list (yielded (chat_delta_streamer dumps request inference)) done_marker = 1"
    by (simp add: chunks)
  moreover have "raised (chat_delta_streamer dumps request inference) = None"
    using assms by (simp add: chat_delta_streamer_def raised_chat_delta_loop)
  ultimately show ?thesis
    using chunks by (simp add: length_chat_delta_payloads frame_def [abs_def] done_marker_def)
qed

theorem chat_terminal_marker_witness:
  "raised (Yield None StopAsyncIteration :: snapshot option agen) = None
   \<and> yielded (chat_delta_streamer (\<lambda>r. ''{}'') [] (example_inference (Yield None StopAsyncIteration)))
       = [''data: [DONE]'' @ nl @ nl]
   \<and> raised (chat_delta_streamer (\<lambda>r. ''{}'') [] (example_inference (Yield None StopAsyncIteration))) = None
   \<and> count_list (yielded (chat_delta_streamer (\<lambda>r. ''{}'') [] (example_inference (Yield None StopAsyncIteration))))
        (''data: [DONE]'' @ nl @ nl) = 1
   \<and> raised hello_snapshots = None
   \<and> yielded (chat_delta_streamer (\<lambda>r. ''{}'') [] (example_inference hello_snapshots))
       = [''data: {}'' @ nl @ nl, ''data: {}'' @ nl @ nl, ''data: [DONE]'' @ nl @ nl]"
proof -
  let ?src = "Yield None StopAsyncIteration :: snapshot option agen"
  have h1: "?src = infer (example_inference ?src) [] (PBool True)"
    by (simp add: example_inference_def)
  have h2: "raised ?src = None" by simp
  have k1: "hello_snapshots = infer (example_inference hello_snapshots) [] (PBool True)"
    by (simp add: example_inference_def)
  have k2: "raised hello_snapshots = None" by (simp add: hello_snapshots_def)
  have d: "\<forall>response::snapshot. ''{}'' \<noteq> ''[DONE]''" by simp
  show ?thesis
    using h2 k2 d chat_terminal_marker [OF h1 h2, of "\<lambda>r. ''{}''"]
      chat_terminal_marker [OF k1 k2, of "\<lambda>r. ''{}''"]
    by (simp add: hello_snapshots_def chat_response_def Let_def)
qed

text \<open>
  C9. Cancellation. When the backend sequence raises \<open>CancelledError\<close>, either streamer
  has yielded the chunks of the snapshots before it and nothing more, raises nothing
  itself, and (where \<open>json.dumps\<close> never returns the text \<open>[DONE]\<close>) has not yielded the
  terminal marker; a request without streaming has then yielded nothing. When the backend
  sequence ends normally, the last chunk of either streamer is what follows its loop: the
  terminal marker, or for a request without streaming the latest serialisation.
\<close>

theorem streamers_cancellation:
  assumes "map_of request ''stream'' = Some flag"
    and "src = infer inference request flag"
    and "csrc = infer cinference crequest (PBool True)"
  shows "(raised src = Some CancelledError \<longrightarrow>
            yielded (inference_streamer dumps request inference) =
              (if truthy flag
               then map (\<lambda>response. ''data: '' @ dumps response @ nl @ nl) (non_none (yielded src))
               else [])
            \<and> raised (inference_streamer dumps request inference) = None
            \<and> ((\<forall>response. dumps response \<noteq> ''[DONE]'') \<longrightarrow>
                 ''data: [DONE]'' @ nl @ nl \<notin> set (yielded (inference_streamer dumps request inference))))
       \<and> (raised csrc = Some CancelledError \<longrightarrow>
            yielded (chat_delta_streamer cdumps crequest cinference) =
              map (\<lambda>response. ''data: '' @ cdumps response @ nl @ nl) (chat_delta_payloads Map.empty csrc)
            \<and> raised (chat_delta_streamer cdumps crequest cinference) = None
            \<and> ((\<forall>response. cdumps response \<noteq> ''[DONE]'') \<longrightarrow>
                 ''data: [DONE]'' @ nl @ nl \<notin> set (yielded (chat_delta_streamer cdumps crequest cinference))))
       \<and> (raised src = None \<longrightarrow>
            yielded (inference_streamer dumps request inference) \<noteq> []
            \<and> last (yielded (inference_streamer dumps request inference)) =
                (if truthy flag then ''data: [DONE]'' @ nl @ nl
                 else last ([] # map dumps (non_none (yielded src)))))
       \<and> (raised csrc = None \<longrightarrow>
            yielded (chat_delta_streamer cdumps crequest cinference) \<noteq> []
            \<and> last (yielded (chat_delta_streamer cdumps crequest cinference)) = ''data: [DONE]'' @ nl @ nl)"
proof -
  have plain: "yielded (inference_streamer dumps request inference) =
      (if truthy flag
       then map (frame dumps) (non_none (yielded src)) @ (if raised src = None then [done_marker] else [])
       else (if raised src = None then [last ([] # map dumps (non_none (yielded src)))] else []))"
    using assms(1,2)
    by (cases "truthy flag")
       (simp_all add: inference_streamer_def yielded_inference_loop_streaming yielded_inference_loop_single)
  have plain_raised: "raised (inference_streamer dumps request inference) =
      (case raised src of None \<Rightarrow> None | Some e \<Rightarrow> if e = CancelledError then None else Some e)"
    using assms(1,2) by (simp add: inference_streamer_def raised_inference_loop)
  have chat: "yielded (chat_delta_streamer cdumps crequest cinference) =
      map (frame cdumps) (chat_delta_payloads Map.empty csrc) @ (if raised csrc = None then [done_marker] else [])"
    using assms(3) by (simp add: chat_delta_streamer_def yielded_chat_delta_loop)
  have chat_raised: "raised (chat_delta_streamer cdumps crequest cinference) =
      (case raised csrc of None \<Rightarrow> None | Some e \<Rightarrow> if e = CancelledError then None else Some e)"
    using assms(3) by (simp add: chat_delta_streamer_def raised_chat_delta_loop)
  have one: "raised src = Some CancelledError \<longrightarrow>
            yielded (inference_streamer dumps request inference) =
              (if truthy flag then map (frame dumps) (non_none (yielded src)) else [])
            \<and> raised (inference_streamer dumps request inference) = None
            \<and> ((\<forall>response. dumps response \<noteq> ''[DONE]'') \<longrightarrow>
                 done_marker \<notin> set (yielded (inference_streamer dumps request inference)))"
    using done_marker_not_framed [of dumps "non_none (yielded src)"]
    by (simp add: plain plain_raised)
  have two: "raised csrc = Some CancelledError \<longrightarrow>
            yielded (chat_delta_streamer cdumps crequest cinference) =
              map (frame cdumps) (chat_delta_payloads Map.empty csrc)
            \<and> raised (chat_delta_streamer cdumps crequest cinference) = None
            \<and> ((\<forall>response. cdumps response \<noteq> ''[DONE]'') \<longrightarrow>
                 done_marker \<notin> set (yielded (chat_delta_streamer cdumps crequest cinference)))"
    using done_marker_not_framed [of cdumps "chat_delta_payloads Map.empty csrc"]
    by (simp add: chat chat_raised)
  have three: "raised src = None \<longrightarrow>
            yielded (inference_streamer dumps request inference) \<noteq> []
            \<and> last (yielded (inference_streamer dumps request inference)) =
                (if truthy flag then done_marker else last ([] # map dumps (non_none (yielded src))))"
    by (simp add: plain)
  have four: "raised csrc = None \<longrightarrow>
            yielded (chat_delta_streamer cdumps crequest cinference) \<noteq> []
            \<and> last (yielded (chat_delta_streamer cdumps crequest cinference)) = done_marker"
    by (simp add: chat)
  from one two three four show ?thesis
    unfolding frame_def [abs_def] done_marker_def by blast
qed

theorem streamers_cancellation_witness:
  "raised cancelled_snapshots = Some CancelledError
   \<and> yielded (inference_streamer id [(''stream'', PBool True)] (example_inference cancelled_snapshots))
       = [''data: {}'' @ nl @ nl]
   \<and> raised (inference_streamer id [(''stream'', PBool True)] (example_inference cancelled_snapshots)) = None
   \<and> ''data: [DONE]'' @ nl @ nl
       \<notin> set (yielded (inference_streamer id [(''stream'', PBool True)] (example_inference cancelled_snapshots)))
   \<and> yielded (inference_streamer id [(''stream'', PBool False)] (example_inference cancelled_snapshots)) = []
   \<and> raised (inference_streamer id [(''stream'', PBool False)] (example_inference cancelled_snapshots)) = None
   \<and> raised cancelled_chat = Some CancelledError
   \<and> yielded (chat_delta_streamer example_dumps [] (example_inference cancelled_chat)) = [''data: {}'' @ nl @ nl]
   \<and> raised (chat_delta_streamer example_dumps [] (example_inference cancelled_chat)) = None
   \<and> raised example_snapshots = None
   \<and> last (yielded (inference_streamer id [(''stream'', PBool True)] (example_inference example_snapshots)))
       = ''data: [DONE]'' @ nl @ nl
   \<and> last (yielded (inference_streamer id [(''stream'', PBool False)] (example_inference example_snapshots)))
       = ''[1]''
   \<and> raised hello_snapshots = None
   \<and> last (yielded (chat_delta_streamer example_dumps [] (example_inference hello_snapshots)))
       = ''data: [DONE]'' @ nl @ nl"
proof -
  have t: "map_of [(''stream'', PBool True)] ''stream'' = Some (PBool True)" by simp
  have f: "map_of [(''stream'', PBool False)] ''stream'' = Some (PBool False)" by simp
  have src: "src = infer (example_inference src) request flag" for src :: "'r option agen" and request flag
    by (simp add: example_inference_def)
  have c1: "raised cancelled_snapshots = Some CancelledError" by (simp add: cancelled_snapshots_def)
  have c2: "raised cancelled_chat = Some CancelledError" by (simp add: cancelled_chat_def)
  have n1: "raised example_snapshots = None" by (simp add: example_snapshots_def)
  have n2: "raised hello_snapshots = None" by (simp add: hello_snapshots_def)
  have ys: "non_none (yielded cancelled_snapshots) = [''{}'']"
    "non_none (yielded example_snapshots) = [''{}'', ''[1]'']"
    by (simp_all add: cancelled_snapshots_def example_snapshots_def)
  have ps: "chat_delta_payloads Map.empty cancelled_chat =
              [\<lparr>choices = Some [\<lparr>index = 0, content = None, delta = Some ''Hel'', choice_other = []\<rparr>],
                snapshot_other = []\<rparr>]"
    by (simp add: cancelled_chat_def chat_response_def Let_def)
  note a = streamers_cancellation [OF t src src, where dumps = id and cdumps = example_dumps,
             of cancelled_snapshots cancelled_chat "[]"]
  note b = streamers_cancellation [OF f src src, where dumps = id and cdumps = example_dumps,
             of cancelled_snapshots cancelled_chat "[]"]
  note c = streamers_cancellation [OF t src src, where dumps = id and cdumps = example_dumps,
             of example_snapshots hello_snapshots "[]"]
  note d = streamers_cancellation [OF f src src, where dumps = id and cdumps = example_dumps,
             of example_snapshots hello_snapshots "[]"]
  show ?thesis
    using a b c d c1 c2 n1 n2
    by (simp add: ys ps example_dumps_def)
qed

text \<open>
  C10. A request whose \<open>stream\<close> is false and a backend sequence that ends normally without
  any snapshot that is not \<open>None\<close>: the plain streamer still yields exactly one chunk, the
  empty string.
\<close>

theorem plain_single_chunk_empty:
  assumes "map_of request ''stream'' = Some (PBool False)"
    and "src = infer inference request (PBool False)"
    and "raised src = None"
    and "non_none (yielded src) = []"
  shows "yielded (inference_streamer dumps request inference) = [[]]
         \<and> raised (inference_streamer dumps request inference) = None"
  using assms
  by (simp add: inference_streamer_def yielded_inference_loop_single raised_inference_loop)

theorem plain_single_chunk_empty_witness:
  "map_of [(''stream'', PBool False)] ''stream'' = Some (PBool False)
   \<and> raised (Yield None (Yield None StopAsyncIteration) :: string option agen) = None
   \<and> non_none (yielded (Yield None (Yield None StopAsyncIteration) :: string option agen)) = []
   \<and> yielded (inference_streamer (\<lambda>s. s) [(''stream'', PBool False)]
                (example_inference (Yield None (Yield None StopAsyncIteration)))) = [[]]
   \<and> raised (inference_streamer (\<lambda>s. s) [(''stream'', PBool False)]
                (example_inference (Yield None (Yield None StopAsyncIteration)))) = None"
proof -
  let ?src = "Yield None (Yield None StopAsyncIteration) :: string option agen"
  have h1: "map_of [(''stream'', PBool False)] ''stream'' = Some (PBool False)" by simp
  have h2: "?src = infer (example_inference ?src) [(''stream'', PBool False)] (PBool False)"
    by (simp add: example_inference_def)
  have h3: "raised ?src = None" by simp
  have h4: "non_none (yielded ?src) = []" by simp
  show ?thesis
    using h1 h3 h4 plain_single_chunk_empty [OF h1 h2 h3 h4, of "\<lambda>s. s"]
    by simp
qed

end
